theory Spec2Isabelle
  imports Complex_Main
begin

section \<open>Data model\<close>

text \<open>
  The repository holds two copies of one React application: the current one
  (\<^verbatim>\<open>src/unnamed/part_000\<close>) and an earlier one (\<^verbatim>\<open>src/src/App.tsx\<close>). Definitions
  without a suffix embed \<^verbatim>\<open>part_000\<close>; definitions ending in \<open>_App\<close> embed \<^verbatim>\<open>App.tsx\<close>.

  JavaScript numbers are embedded as \<^typ>\<open>real\<close>: arithmetic is exact, the rounding of
  IEEE doubles is not part of the model. \<^verbatim>\<open>Date.now()\<close> is an integer count of
  milliseconds. A JavaScript string is the list of its UTF-16 code units.
\<close>

type_synonym js_string = "nat list"

definition ascii :: "string \<Rightarrow> js_string" where
  "ascii s = map of_char s"

text \<open>An object \<^verbatim>\<open>{ x, y }\<close>: a landmark, a rotation, a panel position.\<close>

record xy =
  coord_x :: real
  coord_y :: real

text \<open>
  The part of the \<^verbatim>\<open>THREE.Group\<close> behind \<^verbatim>\<open>earthRef\<close> that the code reads and writes:
  \<^verbatim>\<open>rotation.x\<close>, \<^verbatim>\<open>rotation.y\<close> and \<^verbatim>\<open>scale.x\<close> (\<^verbatim>\<open>scale.set\<close> writes one value to all
  three axes).
\<close>

record group =
  rotation :: xy
  scale_x :: real

record window =
  innerWidth :: real
  innerHeight :: real

text \<open>
  The mutable cells of \<^verbatim>\<open>JarvisHUD\<close>: the refs \<^verbatim>\<open>earthRotation\<close>, \<^verbatim>\<open>earthScale\<close>,
  \<^verbatim>\<open>lastCmdTimeRef\<close> and \<^verbatim>\<open>earthRef\<close> (\<open>None\<close> while the group is not mounted), and the
  React states \<^verbatim>\<open>handStatus\<close>, \<^verbatim>\<open>activeContinent\<close> and \<^verbatim>\<open>panelUI\<close>. \<^verbatim>\<open>App.tsx\<close> has no
  \<^verbatim>\<open>lastCmdTimeRef\<close>; its functions neither read nor write that field.
\<close>

record app =
  earthRotation :: xy
  earthScale :: real
  lastCmdTime :: int
  handStatus :: js_string
  activeContinent :: js_string
  panelUI :: xy
  earthRef :: "group option"

datatype error = TypeError

datatype role = Orientation | Pointer

section \<open>Helpers\<close>

text \<open>
  \<^verbatim>\<open>lerp\<close> is embedded with exact arithmetic. The source rounds every operation to a
  double, so a value computed here may differ from the source's in its last digits;
  whether a smoothed value reaches its target, passes it or stops short of it depends on
  that rounding and is not decided here.
\<close>

definition lerp :: "real \<Rightarrow> real \<Rightarrow> real \<Rightarrow> real" where
  "lerp start end' t = start * (1 - t) + end' * t"

definition getDistance :: "xy \<Rightarrow> xy \<Rightarrow> real" where
  "getDistance p1 p2 = sqrt ((coord_x p1 - coord_x p2)\<^sup>2 + (coord_y p1 - coord_y p2)\<^sup>2)"

section \<open>The detect loop\<close>

text \<open>
  The branch condition \<^verbatim>\<open>wrist.x > 0.5\<close> of the \<^verbatim>\<open>forEach\<close> body, as the role it selects.
\<close>

definition handRole :: "xy list \<Rightarrow> role" where
  "handRole landmarks = (if coord_x (landmarks ! 0) > 0.5 then Orientation else Pointer)"

text \<open>The expression \<^verbatim>\<open>Math.max(0.5, Math.min(2.5, pinch * 8))\<close>.\<close>

definition scaleOfPinch :: "real \<Rightarrow> real" where
  "scaleOfPinch pinch = max 0.5 (min 2.5 (pinch * 8))"

text \<open>
  The body of \<^verbatim>\<open>results.landmarks.forEach\<close> in \<^verbatim>\<open>part_000\<close>, for one hand; \<open>now\<close> is the
  value \<^verbatim>\<open>Date.now()\<close> returns in this iteration. Reading \<^verbatim>\<open>landmarks[9].x\<close> of an array
  with fewer than ten entries throws before anything is written. The canvas drawing
  calls have no effect on the cells modelled here.
\<close>

definition processHand :: "window \<Rightarrow> int \<Rightarrow> xy list \<Rightarrow> app \<Rightarrow> error + app" where
  "processHand win now landmarks st =
     (if length landmarks \<le> 9 then Inl TypeError
      else
        let thumbTip = landmarks ! 4;
            indexTip = landmarks ! 8;
            midX = coord_x (landmarks ! 9);
            midY = coord_y (landmarks ! 9);
            isVoiceControlling = (now - lastCmdTime st < 3000)
        in case handRole landmarks of
             Orientation \<Rightarrow>
               if \<not> isVoiceControlling then
                 Inr (st\<lparr>earthRotation :=
                            (earthRotation st)\<lparr>coord_y := (midX - 0.5) * 8,
                                                coord_x := (midY - 0.5) * 4\<rparr>,
                          earthScale := scaleOfPinch (getDistance thumbTip indexTip)\<rparr>)
               else Inr st
           | Pointer \<Rightarrow>
               if getDistance thumbTip indexTip < 0.05 then
                 Inr (st\<lparr>panelUI := \<lparr>coord_x = (1 - coord_x indexTip) * innerWidth win,
                                     coord_y = coord_y indexTip * innerHeight win\<rparr>\<rparr>)
               else Inr st)"

text \<open>The same body in \<^verbatim>\<open>App.tsx\<close>: no clock is read and nothing gates the gesture.\<close>

definition processHand_App :: "window \<Rightarrow> xy list \<Rightarrow> app \<Rightarrow> error + app" where
  "processHand_App win landmarks st =
     (if length landmarks \<le> 9 then Inl TypeError
      else
        let thumbTip = landmarks ! 4;
            indexTip = landmarks ! 8;
            midX = coord_x (landmarks ! 9);
            midY = coord_y (landmarks ! 9)
        in case handRole landmarks of
             Orientation \<Rightarrow>
               Inr (st\<lparr>earthRotation :=
                          (earthRotation st)\<lparr>coord_y := (midX - 0.5) * 8,
                                              coord_x := (midY - 0.5) * 4\<rparr>,
                        earthScale := scaleOfPinch (getDistance thumbTip indexTip)\<rparr>)
           | Pointer \<Rightarrow>
               if getDistance thumbTip indexTip < 0.05 then
                 Inr (st\<lparr>panelUI := \<lparr>coord_x = (1 - coord_x indexTip) * innerWidth win,
                                     coord_y = coord_y indexTip * innerHeight win\<rparr>\<rparr>)
               else Inr st)"

text \<open>
  One pass over \<^verbatim>\<open>results.landmarks\<close>; each hand comes with the clock value read in its
  iteration. An exception leaves the loop at once: the cells keep what the earlier
  iterations wrote, which is the state returned beside the error.
\<close>

fun forEach :: "window \<Rightarrow> (int \<times> xy list) list \<Rightarrow> app \<Rightarrow> error \<times> app + app" where
  "forEach win [] st = Inr st"
| "forEach win ((now, landmarks) # rest) st =
     (case processHand win now landmarks st of
        Inl e \<Rightarrow> Inl (e, st)
      | Inr st' \<Rightarrow> forEach win rest st')"


text \<open>
  One call of \<^verbatim>\<open>detectLoop\<close>. \<open>ready\<close> is the conjunction of the guards around the
  detection (video, detector and canvas present, \<^verbatim>\<open>videoWidth > 0\<close>, a 2D context);
  \<open>hands\<close> is what \<^verbatim>\<open>detectForVideo\<close> returns.
\<close>

definition detectLoop :: "window \<Rightarrow> bool \<Rightarrow> (int \<times> xy list) list \<Rightarrow> app \<Rightarrow> error \<times> app + app" where
  "detectLoop win ready hands st =
     (if ready then (if length hands > 0 then forEach win hands st else Inr st) else Inr st)"



section \<open>The voice hook\<close>

text \<open>
  \<^verbatim>\<open>String.prototype.includes\<close>: the keyword occurs in the text as a contiguous run of
  code units.
\<close>

fun startsWith :: "js_string \<Rightarrow> js_string \<Rightarrow> bool" where
  "startsWith text [] = True"
| "startsWith [] (k # ks) = False"
| "startsWith (c # cs) (k # ks) = (c = k \<and> startsWith cs ks)"

fun js_includes :: "js_string \<Rightarrow> js_string \<Rightarrow> bool" where
  "js_includes [] kw = startsWith [] kw"
| "js_includes (c # cs) kw = (startsWith (c # cs) kw \<or> js_includes cs kw)"

text \<open>
  The string methods of the JavaScript library that the handler calls. They are
  parameters of the model: the theorems hold whatever these functions compute.
\<close>

record string_lib =
  trim :: "js_string \<Rightarrow> js_string"
  toLowerCase :: "js_string \<Rightarrow> js_string"
  toUpperCase :: "js_string \<Rightarrow> js_string"

text \<open>
  \<^verbatim>\<open>recognition.onresult\<close> of \<^verbatim>\<open>part_000\<close>; \<open>transcript\<close> is
  \<^verbatim>\<open>lastResult[0].transcript\<close> and \<open>now\<close> the value \<^verbatim>\<open>Date.now()\<close> returns on a match.
  Code unit 34 is the double quote of the status template.
\<close>

definition onresult :: "string_lib \<Rightarrow> int \<Rightarrow> js_string \<Rightarrow> app \<Rightarrow> app" where
  "onresult lib now transcript st =
     (let text = toLowerCase lib (trim lib transcript);
          st1 = st\<lparr>handStatus := ascii ''CMD: '' @ [34] @ text @ [34]\<rparr>;
          (st2, matched) =
            (if js_includes text (ascii ''africa'') \<or> js_includes text [38750, 27954] then
               (st1\<lparr>earthRotation := \<lparr>coord_x = 0, coord_y = 0.5\<rparr>\<rparr>, True)
             else if js_includes text (ascii ''asia'') \<or> js_includes text (ascii ''china'')
                     \<or> js_includes text [20122, 27954] \<or> js_includes text [20013, 22269] then
               (st1\<lparr>earthRotation := \<lparr>coord_x = 0.2, coord_y = 2.0\<rparr>\<rparr>, True)
             else if js_includes text (ascii ''america'') \<or> js_includes text (ascii ''usa'')
                     \<or> js_includes text [32654, 27954] \<or> js_includes text [32654, 22269] then
               (st1\<lparr>earthRotation := \<lparr>coord_x = 0, coord_y = 4.8\<rparr>\<rparr>, True)
             else if js_includes text (ascii ''europe'') \<or> js_includes text [27431, 27954] then
               (st1\<lparr>earthRotation := \<lparr>coord_x = 0.3, coord_y = 5.8\<rparr>\<rparr>, True)
             else if js_includes text (ascii ''reset'') \<or> js_includes text (ascii ''stop'')
                     \<or> js_includes text [37325, 32622] then
               (st1\<lparr>earthRotation := \<lparr>coord_x = 0, coord_y = 0\<rparr>\<rparr>, True)
             else (st1, False))
      in if matched then st2\<lparr>lastCmdTime := now\<rparr> else st2)"

text \<open>\<^verbatim>\<open>recognition.onresult\<close> of \<^verbatim>\<open>App.tsx\<close>: English keywords only, no time stamp.\<close>

definition onresult_App :: "string_lib \<Rightarrow> js_string \<Rightarrow> app \<Rightarrow> app" where
  "onresult_App lib transcript st =
     (let command = toLowerCase lib (trim lib transcript);
          st1 = st\<lparr>handStatus := ascii ''VOICE: '' @ [34] @ toUpperCase lib command @ [34]\<rparr>
      in if js_includes command (ascii ''africa'') then
           st1\<lparr>earthRotation := \<lparr>coord_x = 0, coord_y = 0.5\<rparr>\<rparr>
         else if js_includes command (ascii ''asia'') \<or> js_includes command (ascii ''china'') then
           st1\<lparr>earthRotation := \<lparr>coord_x = 0.2, coord_y = 2.0\<rparr>\<rparr>
         else if js_includes command (ascii ''america'') then
           st1\<lparr>earthRotation := \<lparr>coord_x = 0, coord_y = 4.8\<rparr>\<rparr>
         else if js_includes command (ascii ''europe'') then
           st1\<lparr>earthRotation := \<lparr>coord_x = 0.3, coord_y = 5.8\<rparr>\<rparr>
         else if js_includes command (ascii ''reset'') then
           st1\<lparr>earthRotation := \<lparr>coord_x = 0, coord_y = 0\<rparr>\<rparr>
         else st1)"

section \<open>The render callback\<close>

record continent =
  name :: js_string
  rad :: "real \<times> real"

text \<open>
  The table \<^verbatim>\<open>CONTINENTS\<close>; \<^verbatim>\<open>rad[0]\<close> and \<^verbatim>\<open>rad[1]\<close> are the components of the pair. The
  names end in their Chinese translation between parentheses.
\<close>

definition CONTINENTS :: "continent list" where
  "CONTINENTS =
     [\<lparr>name = ascii ''AFRICA ('' @ [38750, 27954] @ ascii '')'', rad = (0, 1.2)\<rparr>,
      \<lparr>name = ascii ''ASIA ('' @ [20122, 27954] @ ascii '')'', rad = (1.2, 2.5)\<rparr>,
      \<lparr>name = ascii ''PACIFIC ('' @ [22826, 24179, 27915] @ ascii '')'', rad = (2.5, 4.0)\<rparr>,
      \<lparr>name = ascii ''AMERICAS ('' @ [32654, 27954] @ ascii '')'', rad = (4.0, 5.5)\<rparr>,
      \<lparr>name = ascii ''EUROPE ('' @ [27431, 27954] @ ascii '')'', rad = (5.5, 6.28)\<rparr>]"

text \<open>The predicate given to \<^verbatim>\<open>CONTINENTS.find\<close>, and the search itself.\<close>

definition inSector :: "real \<Rightarrow> continent \<Rightarrow> bool" where
  "inSector adjustedRot c = (adjustedRot \<ge> fst (rad c) \<and> adjustedRot < snd (rad c))"

definition findContinent :: "real \<Rightarrow> continent option" where
  "findContinent adjustedRot = find (inSector adjustedRot) CONTINENTS"

text \<open>
  The remainder operator \<^verbatim>\<open>%\<close> on numbers: the quotient is truncated toward zero, so
  the result has the sign of the dividend. The code divides by \<^verbatim>\<open>Math.PI * 2\<close> only.
\<close>

definition js_rem :: "real \<Rightarrow> real \<Rightarrow> real" where
  "js_rem a b = a - b * of_int (if 0 \<le> a / b then \<lfloor>a / b\<rfloor> else \<lceil>a / b\<rceil>)"

definition adjustedRotOf :: "real \<Rightarrow> real" where
  "adjustedRotOf rotation_y =
     (let normalizedRot = js_rem (js_rem rotation_y (pi * 2) + pi * 2) (pi * 2)
      in (pi * 2) - normalizedRot)"

text \<open>
  The \<^verbatim>\<open>useFrame\<close> callback of \<^verbatim>\<open>HolographicEarth\<close>. The two files differ in the factor
  of the rotation steps only, which is the first argument here: 0.05 in \<^verbatim>\<open>part_000\<close>,
  0.1 in \<^verbatim>\<open>App.tsx\<close>.
\<close>

definition useFrameWith :: "real \<Rightarrow> app \<Rightarrow> app" where
  "useFrameWith factor st =
     (case earthRef st of
        None \<Rightarrow> st
      | Some g \<Rightarrow>
          let rotation_y = lerp (coord_y (rotation g)) (coord_y (earthRotation st)) factor;
              rotation_x = lerp (coord_x (rotation g)) (coord_x (earthRotation st)) factor;
              newScale = lerp (scale_x g) (earthScale st) 0.1;
              g' = \<lparr>rotation = \<lparr>coord_x = rotation_x, coord_y = rotation_y\<rparr>, scale_x = newScale\<rparr>
          in case findContinent (adjustedRotOf rotation_y) of
               None \<Rightarrow> st\<lparr>earthRef := Some g'\<rparr>
             | Some active \<Rightarrow> st\<lparr>earthRef := Some g', activeContinent := name active\<rparr>)"

definition useFrame :: "app \<Rightarrow> app" where
  "useFrame = useFrameWith 0.05"

definition useFrame_App :: "app \<Rightarrow> app" where
  "useFrame_App = useFrameWith 0.1"

section \<open>The application as a whole\<close>

text \<open>The initial values of the refs and states of \<^verbatim>\<open>JarvisHUD\<close>.\<close>

definition initial :: "window \<Rightarrow> app" where
  "initial win =
     \<lparr>earthRotation = \<lparr>coord_x = 0, coord_y = 0\<rparr>,
      earthScale = 1,
      lastCmdTime = 0,
      handStatus = ascii ''INIT VISION...'',
      activeContinent = ascii ''SCANNING...'',
      panelUI = \<lparr>coord_x = innerWidth win - 320, coord_y = 100\<rparr>,
      earthRef = None\<rparr>"

text \<open>
  What happens to the cells: the group is mounted, an utterance is recognised, the
  detect loop runs once, a frame is rendered. A detect loop that throws is not
  rescheduled; the model lets further detect events happen all the same, which only
  adds behaviours.
\<close>

datatype event =
  Mount group
| Utterance int js_string
| DetectFrame window bool "(int \<times> xy list) list"
| RenderFrame

definition afterDetect :: "error \<times> app + app \<Rightarrow> app" where
  "afterDetect r = (case r of Inl (e, st) \<Rightarrow> st | Inr st \<Rightarrow> st)"

fun step :: "string_lib \<Rightarrow> event \<Rightarrow> app \<Rightarrow> app" where
  "step lib (Mount g) st = st\<lparr>earthRef := Some g\<rparr>"
| "step lib (Utterance now transcript) st = onresult lib now transcript st"
| "step lib (DetectFrame win ready hands) st = afterDetect (detectLoop win ready hands st)"
| "step lib RenderFrame st = useFrame st"


fun run :: "string_lib \<Rightarrow> event list \<Rightarrow> app \<Rightarrow> app" where
  "run lib [] st = st"
| "run lib (e # es) st = run lib es (step lib e st)"


text \<open>
  The string methods on text whose code units are all below 128, where they are
  these: the letters A to Z and a to z are exchanged, and the white space removed at both
  ends is tab, line feed, vertical tab, form feed, carriage return and space.
\<close>

definition asciiLower :: "nat \<Rightarrow> nat" where
  "asciiLower c = (if 65 \<le> c \<and> c \<le> 90 then c + 32 else c)"

definition asciiUpper :: "nat \<Rightarrow> nat" where
  "asciiUpper c = (if 97 \<le> c \<and> c \<le> 122 then c - 32 else c)"

definition asciiSpace :: "nat \<Rightarrow> bool" where
  "asciiSpace c = (c \<in> {9, 10, 11, 12, 13, 32})"

definition asciiLib :: string_lib where
  "asciiLib =
     \<lparr>trim = (\<lambda>s. rev (dropWhile asciiSpace (rev (dropWhile asciiSpace s)))),
      toLowerCase = map asciiLower,
      toUpperCase = map asciiUpper\<rparr>"

section \<open>The keyword table of the specification\<close>

text \<open>
  The ordered table that the specification describes for the voice interpreter: each
  entry is a set of keywords, English and Chinese, bound to a rotation \<open>(x, y)\<close>. An
  utterance matches an entry when it contains one of its keywords; the first matching
  entry in table order counts.
\<close>

definition keywordTable :: "(js_string list \<times> xy) list" where
  "keywordTable =
     [([ascii ''africa'', [38750, 27954]], \<lparr>coord_x = 0, coord_y = 0.5\<rparr>),
      ([ascii ''asia'', ascii ''china'', [20122, 27954], [20013, 22269]],
         \<lparr>coord_x = 0.2, coord_y = 2.0\<rparr>),
      ([ascii ''america'', ascii ''usa'', [32654, 27954], [32654, 22269]],
         \<lparr>coord_x = 0, coord_y = 4.8\<rparr>),
      ([ascii ''europe'', [27431, 27954]], \<lparr>coord_x = 0.3, coord_y = 5.8\<rparr>),
      ([ascii ''reset'', ascii ''stop'', [37325, 32622]], \<lparr>coord_x = 0, coord_y = 0\<rparr>)]"

definition firstMatch :: "js_string \<Rightarrow> xy option" where
  "firstMatch text =
     map_option snd (find (\<lambda>entry. list_ex (js_includes text) (fst entry)) keywordTable)"

section \<open>The scale interval\<close>

definition inScaleRange :: "real \<Rightarrow> bool" where
  "inScaleRange v = (0.5 \<le> v \<and> v \<le> 2.5)"

text \<open>Scale target and rendered scale (once the group is mounted) are in the interval.\<close>

definition scaleInv :: "app \<Rightarrow> bool" where
  "scaleInv st =
     (inScaleRange (earthScale st)
      \<and> (case earthRef st of None \<Rightarrow> True | Some g \<Rightarrow> inScaleRange (scale_x g)))"

text \<open>Every group that is mounted starts with its scale inside the interval.\<close>

definition mountsInRange :: "event list \<Rightarrow> bool" where
  "mountsInRange evs =
     list_all (\<lambda>e. case e of Mount g \<Rightarrow> inScaleRange (scale_x g) | _ \<Rightarrow> True) evs"

section \<open>Comparing the two files\<close>




section \<open>Sample inputs\<close>

definition win0 :: window where
  "win0 = \<lparr>innerWidth = 1920, innerHeight = 1080\<rparr>"

text \<open>
  A hand of 21 landmarks with the four that the code reads given, the others at the
  origin.
\<close>

definition sampleHand :: "xy \<Rightarrow> xy \<Rightarrow> xy \<Rightarrow> xy \<Rightarrow> xy list" where
  "sampleHand wrist thumbTip indexTip middleBase =
     (replicate 21 \<lparr>coord_x = 0, coord_y = 0\<rparr>)
       [0 := wrist, 4 := thumbTip, 8 := indexTip, 9 := middleBase]"

text \<open>
  Two hands on the Orientation side (wrist at \<open>x = 0.6\<close>). The first pinches (thumb tip
  and index tip coincide) and points at the centre, asking for the rotation \<open>(0, 0)\<close>; the
  second holds thumb and index 0.2 apart.
\<close>

definition centredHand :: "xy list" where
  "centredHand =
     sampleHand \<lparr>coord_x = 0.6, coord_y = 0.5\<rparr> \<lparr>coord_x = 0.5, coord_y = 0.5\<rparr>
       \<lparr>coord_x = 0.5, coord_y = 0.5\<rparr> \<lparr>coord_x = 0.5, coord_y = 0.5\<rparr>"

definition spreadHand :: "xy list" where
  "spreadHand =
     sampleHand \<lparr>coord_x = 0.6, coord_y = 0.5\<rparr> \<lparr>coord_x = 0.5, coord_y = 0.5\<rparr>
       \<lparr>coord_x = 0.7, coord_y = 0.5\<rparr> \<lparr>coord_x = 0.75, coord_y = 0.25\<rparr>"

text \<open>
  Two hands with the wrist at \<open>x = 0.51\<close> that differ in every landmark the code reads
  but the wrist's x-coordinate, and a pinching hand with the wrist at \<open>x = 0.49\<close>.
\<close>

definition nearHandA :: "xy list" where
  "nearHandA =
     sampleHand \<lparr>coord_x = 0.51, coord_y = 0.1\<rparr> \<lparr>coord_x = 0.5, coord_y = 0.5\<rparr>
       \<lparr>coord_x = 0.7, coord_y = 0.5\<rparr> \<lparr>coord_x = 0.75, coord_y = 0.25\<rparr>"

definition nearHandB :: "xy list" where
  "nearHandB =
     sampleHand \<lparr>coord_x = 0.51, coord_y = 0.9\<rparr> \<lparr>coord_x = 0.25, coord_y = 0.5\<rparr>
       \<lparr>coord_x = 0.25, coord_y = 0.5\<rparr> \<lparr>coord_x = 0.5, coord_y = 0.5\<rparr>"

definition farHand :: "xy list" where
  "farHand =
     sampleHand \<lparr>coord_x = 0.49, coord_y = 0.1\<rparr> \<lparr>coord_x = 0.25, coord_y = 0.5\<rparr>
       \<lparr>coord_x = 0.25, coord_y = 0.5\<rparr> \<lparr>coord_x = 0.75, coord_y = 0.25\<rparr>"

text \<open>The application after the utterance "go to asia" is its first event.\<close>

definition voicedState :: app where
  "voicedState = onresult asciiLib 1700000000000 (ascii ''go to asia'') (initial win0)"

text \<open>A group as it is mounted: not rotated, at scale 1.\<close>

definition group0 :: group where
  "group0 = \<lparr>rotation = \<lparr>coord_x = 0, coord_y = 0\<rparr>, scale_x = 1\<rparr>"

text \<open>
  A short session: the group is mounted, a spread hand is seen, a frame is rendered,
  "go to asia" is heard, a pinching hand is seen one second later, a frame is rendered.
\<close>

definition sampleEvents :: "event list" where
  "sampleEvents =
     [Mount group0,
      DetectFrame win0 True [(1700000000000, spreadHand)],
      RenderFrame,
      Utterance 1700000005000 (ascii ''go to asia''),
      DetectFrame win0 True [(1700000006000, centredHand)],
      RenderFrame]"



section \<open>A lower bound for \<open>\<pi>\<close>\<close>

text \<open>
  The last sector ends at 6.28, so its distance from \<open>2\<pi>\<close> matters. The bound comes from
  the Maclaurin expansion of the cosine at 1.57 with ten terms.
\<close>

lemma sum_lessThan_10:
  fixes f :: "nat \<Rightarrow> real"
  shows "(\<Sum>m<10. f m) = f 0 + f 1 + f 2 + f 3 + f 4 + f 5 + f 6 + f 7 + f 8 + f 9"
  by (simp add: eval_nat_numeral)

lemma cos_coeff_upto_9:
  "cos_coeff 0 = 1" "cos_coeff 1 = 0" "cos_coeff 2 = - 1 / 2" "cos_coeff 3 = 0"
  "cos_coeff 4 = 1 / 24" "cos_coeff 5 = 0" "cos_coeff 6 = - 1 / 720" "cos_coeff 7 = 0"
  "cos_coeff 8 = 1 / 40320" "cos_coeff 9 = 0"
  by (simp_all add: cos_coeff_def fact_numeral)

lemma cos_157_pos: "0 < cos (157 / 100 :: real)"
proof -
  obtain t where t: "cos (157 / 100 :: real) =
      (\<Sum>m<10. cos_coeff m * (157 / 100) ^ m)
        + (cos (t + 1/2 * real 10 * pi) / fact 10) * (157 / 100) ^ 10"
    using Maclaurin_cos_expansion2 [of "157 / 100" 10] by auto
  have s: "(\<Sum>m<10. cos_coeff m * (157 / 100 :: real) ^ m) > 5 / 10000"
    unfolding sum_lessThan_10 cos_coeff_upto_9 by (simp add: power_divide)
  have "- 1 \<le> cos (t + 1/2 * real 10 * pi)"
    by simp
  then have r: "(cos (t + 1/2 * real 10 * pi) / fact 10) * (157 / 100) ^ 10
                  \<ge> - ((157 / 100) ^ 10 / fact 10)"
    by (simp add: field_simps)
  have "((157 / 100 :: real) ^ 10 / fact 10) < 1 / 10000"
    by (simp add: fact_numeral power_divide)
  with s r t show ?thesis
    by linarith
qed

lemma pi_gt_314: "314 / 100 < pi"
proof (rule ccontr)
  assume "\<not> 314 / 100 < pi"
  then have "pi / 2 \<le> 157 / 100"
    by simp
  moreover have "(157 / 100 :: real) \<le> pi"
    using pi_ge_two by linarith
  ultimately have "cos (157 / 100) \<le> cos (pi / 2)"
    by (intro cos_monotone_0_pi_le) auto
  with cos_157_pos show False
    by simp
qed

section \<open>The body of the detect loop, branch by branch\<close>

lemma scaleOfPinch_bounds: "0.5 \<le> scaleOfPinch d \<and> scaleOfPinch d \<le> 2.5"
  by (simp add: scaleOfPinch_def)

lemma processHand_Orientation:
  assumes "length landmarks > 9" and "coord_x (landmarks ! 0) > 0.5"
  shows "processHand win now landmarks st =
     (if now - lastCmdTime st < 3000 then Inr st
      else Inr (st\<lparr>earthRotation := \<lparr>coord_x = (coord_y (landmarks ! 9) - 0.5) * 4,
                                       coord_y = (coord_x (landmarks ! 9) - 0.5) * 8\<rparr>,
                    earthScale := scaleOfPinch (getDistance (landmarks ! 4) (landmarks ! 8))\<rparr>))"
  using assms by (simp add: processHand_def handRole_def Let_def)

lemma processHand_App_Orientation:
  assumes "length landmarks > 9" and "coord_x (landmarks ! 0) > 0.5"
  shows "processHand_App win landmarks st =
      Inr (st\<lparr>earthRotation := \<lparr>coord_x = (coord_y (landmarks ! 9) - 0.5) * 4,
                                  coord_y = (coord_x (landmarks ! 9) - 0.5) * 8\<rparr>,
               earthScale := scaleOfPinch (getDistance (landmarks ! 4) (landmarks ! 8))\<rparr>)"
  using assms by (simp add: processHand_App_def handRole_def Let_def)

lemma processHand_Pointer:
  assumes "length landmarks > 9" and "\<not> coord_x (landmarks ! 0) > 0.5"
  shows "processHand win now landmarks st =
     (if getDistance (landmarks ! 4) (landmarks ! 8) < 0.05 then
        Inr (st\<lparr>panelUI := \<lparr>coord_x = (1 - coord_x (landmarks ! 8)) * innerWidth win,
                            coord_y = coord_y (landmarks ! 8) * innerHeight win\<rparr>\<rparr>)
      else Inr st)"
  using assms by (simp add: processHand_def handRole_def Let_def)

lemma processHand_App_Pointer:
  assumes "length landmarks > 9" and "\<not> coord_x (landmarks ! 0) > 0.5"
  shows "processHand_App win landmarks st = processHand win now landmarks st"
  using assms by (simp add: processHand_def processHand_App_def handRole_def Let_def)

lemma processHand_short:
  assumes "length landmarks \<le> 9"
  shows "processHand win now landmarks st = Inl TypeError"
    and "processHand_App win landmarks st = Inl TypeError"
  using assms by (simp_all add: processHand_def processHand_App_def)

lemma sampleHand_nth:
  "length (sampleHand w t i m) = 21"
  "sampleHand w t i m ! 0 = w"
  "sampleHand w t i m ! 4 = t"
  "sampleHand w t i m ! 8 = i"
  "sampleHand w t i m ! 9 = m"
  by (simp_all add: sampleHand_def)

lemma getDistance_same: "getDistance p p = 0"
  by (simp add: getDistance_def)

section \<open>Sample inputs, evaluated\<close>

lemma voicedState_eq:
  "voicedState =
     (initial win0)\<lparr>handStatus := ascii ''CMD: '' @ [34] @ ascii ''go to asia'' @ [34],
                    earthRotation := \<lparr>coord_x = 0.2, coord_y = 2\<rparr>,
                    lastCmdTime := 1700000000000\<rparr>"
  by (simp add: voicedState_def onresult_def asciiLib_def ascii_def asciiLower_def asciiSpace_def
      initial_def)

lemma getDistance_level:
  "coord_y p = coord_y q \<Longrightarrow> getDistance p q = \<bar>coord_x p - coord_x q\<bar>"
  by (simp add: getDistance_def)

lemma centredHand_nth:
  "length centredHand = 21"
  "centredHand ! 0 = \<lparr>coord_x = 0.6, coord_y = 0.5\<rparr>"
  "centredHand ! 4 = \<lparr>coord_x = 0.5, coord_y = 0.5\<rparr>"
  "centredHand ! 8 = \<lparr>coord_x = 0.5, coord_y = 0.5\<rparr>"
  "centredHand ! 9 = \<lparr>coord_x = 0.5, coord_y = 0.5\<rparr>"
  by (simp_all add: centredHand_def sampleHand_nth)

lemma spreadHand_nth:
  "length spreadHand = 21"
  "spreadHand ! 0 = \<lparr>coord_x = 0.6, coord_y = 0.5\<rparr>"
  "spreadHand ! 4 = \<lparr>coord_x = 0.5, coord_y = 0.5\<rparr>"
  "spreadHand ! 8 = \<lparr>coord_x = 0.7, coord_y = 0.5\<rparr>"
  "spreadHand ! 9 = \<lparr>coord_x = 0.75, coord_y = 0.25\<rparr>"
  by (simp_all add: spreadHand_def sampleHand_nth)

lemma spreadHand_scale: "scaleOfPinch (getDistance (spreadHand ! 4) (spreadHand ! 8)) = 1.6"
  by (simp add: spreadHand_nth getDistance_level scaleOfPinch_def)

lemma centredHand_scale: "scaleOfPinch (getDistance (centredHand ! 4) (centredHand ! 8)) = 0.5"
  by (simp add: centredHand_nth getDistance_same scaleOfPinch_def)

lemma nearHandA_nth:
  "length nearHandA = 21"
  "nearHandA ! 0 = \<lparr>coord_x = 0.51, coord_y = 0.1\<rparr>"
  "nearHandA ! 4 = \<lparr>coord_x = 0.5, coord_y = 0.5\<rparr>"
  "nearHandA ! 8 = \<lparr>coord_x = 0.7, coord_y = 0.5\<rparr>"
  "nearHandA ! 9 = \<lparr>coord_x = 0.75, coord_y = 0.25\<rparr>"
  by (simp_all add: nearHandA_def sampleHand_nth)

lemma nearHandB_nth:
  "length nearHandB = 21"
  "nearHandB ! 0 = \<lparr>coord_x = 0.51, coord_y = 0.9\<rparr>"
  "nearHandB ! 4 = \<lparr>coord_x = 0.25, coord_y = 0.5\<rparr>"
  "nearHandB ! 8 = \<lparr>coord_x = 0.25, coord_y = 0.5\<rparr>"
  "nearHandB ! 9 = \<lparr>coord_x = 0.5, coord_y = 0.5\<rparr>"
  by (simp_all add: nearHandB_def sampleHand_nth)

lemma farHand_nth:
  "length farHand = 21"
  "farHand ! 0 = \<lparr>coord_x = 0.49, coord_y = 0.1\<rparr>"
  "farHand ! 4 = \<lparr>coord_x = 0.25, coord_y = 0.5\<rparr>"
  "farHand ! 8 = \<lparr>coord_x = 0.25, coord_y = 0.5\<rparr>"
  "farHand ! 9 = \<lparr>coord_x = 0.75, coord_y = 0.25\<rparr>"
  by (simp_all add: farHand_def sampleHand_nth)

section \<open>Voice priority over the gesture\<close>

text \<open>
  Claim C1. A hand on the Orientation side (\<^verbatim>\<open>wrist.x > 0.5\<close>) that is processed at clock
  value \<open>now\<close>: while \<open>now - lastCmdTime < 3000\<close> the iteration writes nothing, so the
  rotation target keeps the value the voice command gave it; from \<open>now - lastCmdTime = 3000\<close>
  on the rotation target becomes \<^verbatim>\<open>y = (landmark9.x - 0.5) * 8\<close>,
  \<^verbatim>\<open>x = (landmark9.y - 0.5) * 4\<close>. The hand has the ten landmarks the iteration reads.
\<close>

theorem voice_window_gates_rotation:
  assumes "9 < length landmarks" and "0.5 < coord_x (landmarks ! 0)"
  shows "(now - lastCmdTime st < 3000 \<longrightarrow> processHand win now landmarks st = Inr st)
       \<and> (3000 \<le> now - lastCmdTime st \<longrightarrow>
            (\<exists>st'. processHand win now landmarks st = Inr st'
               \<and> earthRotation st' = \<lparr>coord_x = (coord_y (landmarks ! 9) - 0.5) * 4,
                                       coord_y = (coord_x (landmarks ! 9) - 0.5) * 8\<rparr>))"
  using assms by (simp add: processHand_Orientation)

text \<open>
  After "go to asia" at time \<open>T\<close>, a hand at \<open>T + 2999\<close> is ignored and the same hand at
  exactly \<open>T + 3000\<close> sets the rotation target.
\<close>

theorem voice_window_gates_rotation_witness:
  "9 < length spreadHand \<and> 0.5 < coord_x (spreadHand ! 0)
   \<and> lastCmdTime voicedState = 1700000000000
   \<and> earthRotation voicedState = \<lparr>coord_x = 0.2, coord_y = 2\<rparr>
   \<and> processHand win0 1700000002999 spreadHand voicedState = Inr voicedState
   \<and> (\<exists>st'. processHand win0 1700000003000 spreadHand voicedState = Inr st'
         \<and> earthRotation st' = \<lparr>coord_x = - 1, coord_y = 2\<rparr>)"
  using voice_window_gates_rotation [of spreadHand 1700000002999 voicedState win0]
    voice_window_gates_rotation [of spreadHand 1700000003000 voicedState win0]
  by (simp add: spreadHand_nth voicedState_eq)

text \<open>
  For a whole frame: when every hand of the frame is processed inside the window, the
  detect loop leaves the rotation target and the scale target as they were, whether or
  not it runs to its end.
\<close>

lemma processHand_inside_window:
  assumes "now - lastCmdTime st < 3000" and "processHand win now landmarks st = Inr st'"
  shows "earthRotation st' = earthRotation st \<and> earthScale st' = earthScale st
         \<and> lastCmdTime st' = lastCmdTime st"
  using assms by (auto simp: processHand_def Let_def split: if_splits role.splits)

lemma forEach_inside_window:
  assumes "list_all (\<lambda>hand. fst hand - lastCmdTime st < 3000) hands"
  shows "earthRotation (afterDetect (forEach win hands st)) = earthRotation st
         \<and> earthScale (afterDetect (forEach win hands st)) = earthScale st"
  using assms
proof (induction hands arbitrary: st)
  case Nil
  show ?case by (simp add: afterDetect_def)
next
  case (Cons hand hands)
  obtain now landmarks where hand: "hand = (now, landmarks)" by (cases hand)
  show ?case
  proof (cases "processHand win now landmarks st")
    case (Inl e)
    then show ?thesis using hand by (simp add: afterDetect_def)
  next
    case (Inr st')
    from Cons.prems hand have "now - lastCmdTime st < 3000" by simp
    then have k: "earthRotation st' = earthRotation st \<and> earthScale st' = earthScale st
         \<and> lastCmdTime st' = lastCmdTime st"
      using Inr by (rule processHand_inside_window)
    then have "list_all (\<lambda>hand. fst hand - lastCmdTime st' < 3000) hands"
      using Cons.prems by simp
    then show ?thesis
      using Cons.IH [of st'] Inr hand k by simp
  qed
qed

lemma detectLoop_inside_window:
  assumes "list_all (\<lambda>hand. fst hand - lastCmdTime st < 3000) hands"
  shows "earthRotation (afterDetect (detectLoop win ready hands st)) = earthRotation st
         \<and> earthScale (afterDetect (detectLoop win ready hands st)) = earthScale st"
  using forEach_inside_window [OF assms, of win]
  by (simp add: detectLoop_def afterDetect_def)

section \<open>The scale computed from the pinch\<close>

text \<open>
  Claim C6. For every pinch distance \<open>d\<close>, negative or above 1 included, the scale the
  gesture yields is \<open>max 0.5 (min 2.5 (d * 8))\<close> and lies in \<open>[0.5, 2.5]\<close>; and this is the
  value both files write to the scale target when an Orientation hand is honoured, with
  \<open>d\<close> the distance between thumb tip and index tip.
\<close>

theorem gesture_scale_clamped:
  "scaleOfPinch d = max 0.5 (min 2.5 (d * 8)) \<and> 0.5 \<le> scaleOfPinch d \<and> scaleOfPinch d \<le> 2.5
   \<and> (9 < length landmarks \<and> 0.5 < coord_x (landmarks ! 0) \<and> 3000 \<le> now - lastCmdTime st \<longrightarrow>
        (\<exists>st'. processHand win now landmarks st = Inr st'
            \<and> earthScale st' = scaleOfPinch (getDistance (landmarks ! 4) (landmarks ! 8))))
   \<and> (9 < length landmarks \<and> 0.5 < coord_x (landmarks ! 0) \<longrightarrow>
        (\<exists>st'. processHand_App win landmarks st = Inr st'
            \<and> earthScale st' = scaleOfPinch (getDistance (landmarks ! 4) (landmarks ! 8))))"
proof (intro conjI)
  show "scaleOfPinch d = max 0.5 (min 2.5 (d * 8))"
    by (simp add: scaleOfPinch_def)
  show "0.5 \<le> scaleOfPinch d" and "scaleOfPinch d \<le> 2.5"
    using scaleOfPinch_bounds [of d] by simp_all
  show "9 < length landmarks \<and> 0.5 < coord_x (landmarks ! 0) \<and> 3000 \<le> now - lastCmdTime st \<longrightarrow>
        (\<exists>st'. processHand win now landmarks st = Inr st'
            \<and> earthScale st' = scaleOfPinch (getDistance (landmarks ! 4) (landmarks ! 8)))"
    by (simp add: processHand_Orientation)
  show "9 < length landmarks \<and> 0.5 < coord_x (landmarks ! 0) \<longrightarrow>
        (\<exists>st'. processHand_App win landmarks st = Inr st'
            \<and> earthScale st' = scaleOfPinch (getDistance (landmarks ! 4) (landmarks ! 8)))"
    by (simp add: processHand_App_Orientation)
qed

text \<open>
  A pinch distance of 0.2 gives the scale 1.6, a negative one 0.5, a large one 2.5.
\<close>

theorem gesture_scale_clamped_witness:
  "9 < length spreadHand \<and> 0.5 < coord_x (spreadHand ! 0)
   \<and> 3000 \<le> 1700000000000 - lastCmdTime (initial win0)
   \<and> getDistance (spreadHand ! 4) (spreadHand ! 8) = 0.2
   \<and> (\<exists>st'. processHand win0 1700000000000 spreadHand (initial win0) = Inr st'
         \<and> earthScale st' = 1.6)
   \<and> (\<exists>st'. processHand_App win0 spreadHand (initial win0) = Inr st' \<and> earthScale st' = 1.6)
   \<and> scaleOfPinch (- 1) = 0.5 \<and> scaleOfPinch 7 = 2.5"
  using gesture_scale_clamped [of "getDistance (spreadHand ! 4) (spreadHand ! 8)"
      spreadHand 1700000000000 "initial win0" win0]
    gesture_scale_clamped [of "- 1"] gesture_scale_clamped [of 7]
  by (simp add: spreadHand_nth getDistance_level initial_def scaleOfPinch_def)

section \<open>Roles\<close>

text \<open>
  Claim C7. What the loop body does with a hand is chosen by the x-coordinate of the
  wrist (landmark 0) alone. Two hands with the same wrist x-coordinate, whatever their
  other landmarks, get the same role, and the body treats both by that role: above 0.5
  (Orientation) it writes the rotation and scale targets, or nothing inside the voice
  window, and never the panel; otherwise (Pointer) it writes the panel position on a
  pinch and never the targets. A wrist at 0.51 gives Orientation, one at 0.49 Pointer.
\<close>

theorem role_from_wrist_x:
  assumes "9 < length h1" and "9 < length h2"
    and "coord_x (h1 ! 0) = coord_x (h2 ! 0)"
  shows "handRole h1 = handRole h2
    \<and> (handRole h1 = Orientation \<longleftrightarrow> 0.5 < coord_x (h1 ! 0))
    \<and> (handRole h1 = Pointer \<longleftrightarrow> coord_x (h1 ! 0) \<le> 0.5)
    \<and> (coord_x (h1 ! 0) = 0.51 \<longrightarrow> handRole h1 = Orientation)
    \<and> (coord_x (h1 ! 0) = 0.49 \<longrightarrow> handRole h1 = Pointer)
    \<and> (\<forall>h \<in> {h1, h2}.
          processHand win now h st =
            (if 0.5 < coord_x (h1 ! 0) then
               (if now - lastCmdTime st < 3000 then Inr st
                else Inr (st\<lparr>earthRotation := \<lparr>coord_x = (coord_y (h ! 9) - 0.5) * 4,
                                                 coord_y = (coord_x (h ! 9) - 0.5) * 8\<rparr>,
                              earthScale := scaleOfPinch (getDistance (h ! 4) (h ! 8))\<rparr>))
             else
               (if getDistance (h ! 4) (h ! 8) < 0.05 then
                  Inr (st\<lparr>panelUI := \<lparr>coord_x = (1 - coord_x (h ! 8)) * innerWidth win,
                                      coord_y = coord_y (h ! 8) * innerHeight win\<rparr>\<rparr>)
                else Inr st)))"
proof -
  have r: "handRole h1 = handRole h2"
    using assms(3) by (simp add: handRole_def)
  have b: "processHand win now h st =
            (if 0.5 < coord_x (h1 ! 0) then
               (if now - lastCmdTime st < 3000 then Inr st
                else Inr (st\<lparr>earthRotation := \<lparr>coord_x = (coord_y (h ! 9) - 0.5) * 4,
                                                 coord_y = (coord_x (h ! 9) - 0.5) * 8\<rparr>,
                              earthScale := scaleOfPinch (getDistance (h ! 4) (h ! 8))\<rparr>))
             else
               (if getDistance (h ! 4) (h ! 8) < 0.05 then
                  Inr (st\<lparr>panelUI := \<lparr>coord_x = (1 - coord_x (h ! 8)) * innerWidth win,
                                      coord_y = coord_y (h ! 8) * innerHeight win\<rparr>\<rparr>)
                else Inr st))"
    if "9 < length h" and "coord_x (h ! 0) = coord_x (h1 ! 0)" for h
  proof (cases "0.5 < coord_x (h ! 0)")
    case True
    then show ?thesis
      using that processHand_Orientation [of h win now st] by simp
  next
    case False
    then show ?thesis
      using that processHand_Pointer [of h win now st] by simp
  qed
  have "\<forall>h \<in> {h1, h2}. 9 < length h \<and> coord_x (h ! 0) = coord_x (h1 ! 0)"
    using assms by simp
  then show ?thesis
    using r b by (simp add: handRole_def)
qed

text \<open>
  Two different hands with the wrist at 0.51 both set the targets and leave the panel;
  a pinching hand with the wrist at 0.49 moves the panel and leaves the targets.
\<close>

theorem role_from_wrist_x_witness:
  "9 < length nearHandA \<and> 9 < length nearHandB
   \<and> coord_x (nearHandA ! 0) = 0.51 \<and> coord_x (nearHandB ! 0) = 0.51
   \<and> nearHandA ! 9 \<noteq> nearHandB ! 9
   \<and> handRole nearHandA = Orientation \<and> handRole nearHandB = Orientation
   \<and> processHand win0 1700000000000 nearHandA (initial win0)
       = Inr ((initial win0)\<lparr>earthRotation := \<lparr>coord_x = - 1, coord_y = 2\<rparr>, earthScale := 1.6\<rparr>)
   \<and> processHand win0 1700000000000 nearHandB (initial win0)
       = Inr ((initial win0)\<lparr>earthRotation := \<lparr>coord_x = 0, coord_y = 0\<rparr>, earthScale := 0.5\<rparr>)
   \<and> 9 < length farHand \<and> coord_x (farHand ! 0) = 0.49
   \<and> handRole farHand = Pointer
   \<and> processHand win0 1700000000000 farHand (initial win0)
       = Inr ((initial win0)\<lparr>panelUI := \<lparr>coord_x = 1440, coord_y = 540\<rparr>\<rparr>)"
  using role_from_wrist_x [of nearHandA nearHandB win0 1700000000000 "initial win0"]
    role_from_wrist_x [of farHand farHand win0 1700000000000 "initial win0"]
  by (auto simp add: nearHandA_nth nearHandB_nth farHand_nth getDistance_level
      getDistance_same scaleOfPinch_def initial_def win0_def)


text \<open>
  What the roles mean: a Pointer hand leaves the rotation and scale targets alone, an
  Orientation hand leaves the panel alone.
\<close>

lemma Pointer_keeps_targets:
  assumes "handRole landmarks = Pointer" and "processHand win now landmarks st = Inr st'"
  shows "earthRotation st' = earthRotation st \<and> earthScale st' = earthScale st"
  using assms by (auto simp: processHand_def Let_def split: if_splits)

lemma Orientation_keeps_panel:
  assumes "handRole landmarks = Orientation" and "processHand win now landmarks st = Inr st'"
  shows "panelUI st' = panelUI st"
  using assms by (auto simp: processHand_def Let_def split: if_splits)

section \<open>The scale target under voice priority\<close>

lemma onresult_keeps:
  "earthScale (onresult lib now transcript st) = earthScale st"
  "earthRef (onresult lib now transcript st) = earthRef st"
  "panelUI (onresult lib now transcript st) = panelUI st"
  "activeContinent (onresult lib now transcript st) = activeContinent st"
  by (simp_all add: onresult_def Let_def split: if_splits)

text \<open>
  Claim C2, as the code has it. The assignment to the scale target stands inside the
  same test as the rotation: a hand on the Orientation side sets the scale target to the
  clamped pinch value only when \<open>now - lastCmdTime \<ge> 3000\<close>; inside the window the scale
  target keeps its value. A voice command never changes the scale target.
\<close>

theorem scale_follows_voice_window:
  assumes "9 < length landmarks" and "0.5 < coord_x (landmarks ! 0)"
  shows "(\<exists>st'. processHand win now landmarks st = Inr st'
            \<and> earthScale st' =
                (if now - lastCmdTime st < 3000 then earthScale st
                 else scaleOfPinch (getDistance (landmarks ! 4) (landmarks ! 8))))
         \<and> earthScale (onresult lib t transcript st) = earthScale st"
  using assms by (simp add: processHand_Orientation onresult_keeps)

theorem scale_follows_voice_window_witness:
  "9 < length centredHand \<and> 0.5 < coord_x (centredHand ! 0)
   \<and> (\<exists>st'. processHand win0 1700000001000 centredHand voicedState = Inr st'
          \<and> earthScale st' = 1)
   \<and> (\<exists>st'. processHand win0 1700000003100 centredHand voicedState = Inr st'
          \<and> earthScale st' = 0.5)
   \<and> earthScale voicedState = earthScale (initial win0)"
  using scale_follows_voice_window [of centredHand win0 1700000001000 voicedState
      asciiLib 1700000000000 "ascii ''go to asia''"]
    scale_follows_voice_window [of centredHand win0 1700000003100 voicedState
      asciiLib 1700000000000 "ascii ''go to asia''"]
    scale_follows_voice_window [of centredHand win0 1700000003100 "initial win0"
      asciiLib 1700000000000 "ascii ''go to asia''"]
  by (simp add: centredHand_nth voicedState_eq getDistance_same scaleOfPinch_def initial_def)

text \<open>
  The claim as written fails one second after "go to asia": the frame holds an
  Orientation hand whose pinch asks for the scale 0.5, and the detect loop leaves the
  scale target at 1.
\<close>

theorem scale_update_suppressed_counterexample:
  "0.5 < coord_x (centredHand ! 0)
   \<and> 1700000001000 - lastCmdTime voicedState < 3000
   \<and> detectLoop win0 True [(1700000001000, centredHand)] voicedState = Inr voicedState
   \<and> earthScale voicedState = 1
   \<and> scaleOfPinch (getDistance (centredHand ! 4) (centredHand ! 8)) = 0.5"
  by (simp add: detectLoop_def processHand_Orientation centredHand_nth getDistance_same
      scaleOfPinch_def voicedState_eq initial_def)

section \<open>Voice commands\<close>

text \<open>\<^const>\<open>js_includes\<close> is containment as a contiguous substring.\<close>

lemma startsWith_iff: "startsWith s kw \<longleftrightarrow> (\<exists>post. s = kw @ post)"
  by (induction s kw rule: startsWith.induct) auto

lemma js_includes_iff: "js_includes s kw \<longleftrightarrow> (\<exists>pre post. s = pre @ kw @ post)"
proof (induction s)
  case Nil
  then show ?case by (simp add: startsWith_iff)
next
  case (Cons c cs)
  show ?case
  proof
    assume "js_includes (c # cs) kw"
    then consider "startsWith (c # cs) kw" | "js_includes cs kw" by auto
    then show "\<exists>pre post. c # cs = pre @ kw @ post"
    proof cases
      case 1
      then obtain post where "c # cs = kw @ post" by (auto simp: startsWith_iff)
      then have "c # cs = [] @ kw @ post" by simp
      then show ?thesis by blast
    next
      case 2
      then obtain pre post where "cs = pre @ kw @ post" using Cons.IH by auto
      then have "c # cs = (c # pre) @ kw @ post" by simp
      then show ?thesis by blast
    qed
  next
    assume "\<exists>pre post. c # cs = pre @ kw @ post"
    then obtain pre post where e: "c # cs = pre @ kw @ post" by auto
    show "js_includes (c # cs) kw"
    proof (cases pre)
      case Nil
      with e have "startsWith (c # cs) kw" by (auto simp: startsWith_iff)
      then show ?thesis by simp
    next
      case (Cons p ps)
      with e have "cs = ps @ kw @ post" by simp
      then have "js_includes cs kw" using Cons.IH by blast
      then show ?thesis by simp
    qed
  qed
qed

text \<open>
  Claim C4. For every utterance, with \<open>text\<close> the trimmed and lower-cased transcript: if
  an entry of the keyword table matches \<open>text\<close>, the handler sets the rotation target to
  the rotation of the first such entry and the command time stamp to the current time;
  if none matches, the rotation target and the time stamp keep their values.
\<close>

theorem voice_first_match_wins:
  "(case firstMatch (toLowerCase lib (trim lib transcript)) of
      Some r \<Rightarrow> earthRotation (onresult lib now transcript st) = r
                \<and> lastCmdTime (onresult lib now transcript st) = now
    | None \<Rightarrow> earthRotation (onresult lib now transcript st) = earthRotation st
                \<and> lastCmdTime (onresult lib now transcript st) = lastCmdTime st)"
  by (simp add: onresult_def firstMatch_def keywordTable_def Let_def)

lemma firstMatch_examples:
  "firstMatch (toLowerCase asciiLib (trim asciiLib (ascii '' Asia and AFRICA '')))
     = Some \<lparr>coord_x = 0, coord_y = 0.5\<rparr>"
  "firstMatch (toLowerCase asciiLib (trim asciiLib (ascii ''hello''))) = None"
  "firstMatch (toLowerCase asciiLib (trim asciiLib (ascii ''Go to '' @ [32654, 22269])))
     = Some \<lparr>coord_x = 0, coord_y = 4.8\<rparr>"
  by (simp_all add: asciiLib_def ascii_def asciiLower_def asciiSpace_def firstMatch_def
      keywordTable_def)

text \<open>
  An utterance naming Asia before Africa turns to Africa, the earlier entry of the
  table; "hello" after "go to asia" changes neither the target nor the time stamp.
\<close>

theorem voice_first_match_wins_witness:
  "earthRotation (onresult asciiLib 1700000000000 (ascii '' Asia and AFRICA '') (initial win0))
     = \<lparr>coord_x = 0, coord_y = 0.5\<rparr>
   \<and> lastCmdTime (onresult asciiLib 1700000000000 (ascii '' Asia and AFRICA '') (initial win0))
     = 1700000000000
   \<and> earthRotation (onresult asciiLib 1700000005000 (ascii ''hello'') voicedState)
     = \<lparr>coord_x = 0.2, coord_y = 2\<rparr>
   \<and> lastCmdTime (onresult asciiLib 1700000005000 (ascii ''hello'') voicedState)
     = 1700000000000"
  using voice_first_match_wins [where lib = asciiLib
      and transcript = "ascii '' Asia and AFRICA ''"
      and now = 1700000000000 and st = "initial win0"]
    voice_first_match_wins [where lib = asciiLib and transcript = "ascii ''hello''"
      and now = 1700000005000 and st = voicedState]
  by (simp add: firstMatch_examples voicedState_eq)

section \<open>Sectors\<close>

lemma findContinent_cases:
  "findContinent a =
     (if 0 \<le> a \<and> a < 1.2 then Some (CONTINENTS ! 0)
      else if 1.2 \<le> a \<and> a < 2.5 then Some (CONTINENTS ! 1)
      else if 2.5 \<le> a \<and> a < 4 then Some (CONTINENTS ! 2)
      else if 4 \<le> a \<and> a < 5.5 then Some (CONTINENTS ! 3)
      else if 5.5 \<le> a \<and> a < 6.28 then Some (CONTINENTS ! 4)
      else None)"
  by (simp add: findContinent_def CONTINENTS_def inSector_def)

lemma sectors_exactly_one:
  assumes "0 \<le> a" and "a < 6.28"
  shows "length (filter (inSector a) CONTINENTS) = 1"
  using assms by (simp add: CONTINENTS_def inSector_def)

lemma sectors_none:
  assumes "a < 0 \<or> 6.28 \<le> a"
  shows "filter (inSector a) CONTINENTS = []"
  using assms by (auto simp add: CONTINENTS_def inSector_def)

lemma findContinent_None_iff: "findContinent a = None \<longleftrightarrow> a < 0 \<or> 6.28 \<le> a"
  by (simp add: findContinent_cases) linarith

lemma findContinent_Some_range:
  "findContinent a = Some c \<Longrightarrow> fst (rad c) \<le> a \<and> a < snd (rad c)"
  by (auto simp: findContinent_def inSector_def dest: find_Some_iff[THEN iffD1])

lemma gap_below_two_pi: "6.28 < 2 * pi"
  using pi_gt_314 by simp

text \<open>
  The angle given to the search lies in \<open>(0, 2\<pi>]\<close>: the normalised rotation is in
  \<open>[0, 2\<pi>)\<close> and is subtracted from \<open>2\<pi>\<close>. A rotation of 0 gives exactly \<open>2\<pi>\<close>.
\<close>

lemma js_rem_zero: "js_rem 0 b = 0"
  by (simp add: js_rem_def)

lemma js_rem_self: "b \<noteq> 0 \<Longrightarrow> js_rem b b = 0"
  by (simp add: js_rem_def)

lemma adjustedRotOf_0: "adjustedRotOf 0 = 2 * pi"
  by (simp add: adjustedRotOf_def js_rem_zero js_rem_self)

lemma js_rem_nonneg:
  assumes "0 < b" and "0 \<le> a"
  shows "0 \<le> js_rem a b \<and> js_rem a b < b"
proof -
  have q: "0 \<le> a / b" using assms by simp
  have "b * of_int \<lfloor>a / b\<rfloor> \<le> b * (a / b)"
    using assms(1) by (intro mult_left_mono) auto
  then have l: "b * of_int \<lfloor>a / b\<rfloor> \<le> a"
    using assms(1) by simp
  have "a / b < of_int \<lfloor>a / b\<rfloor> + 1" by linarith
  then have "b * (a / b) < b * (of_int \<lfloor>a / b\<rfloor> + 1)"
    using assms(1) by (intro mult_strict_left_mono) auto
  then have u: "a < b * of_int \<lfloor>a / b\<rfloor> + b"
    using assms(1) by (simp add: algebra_simps)
  from q l u show ?thesis by (simp add: js_rem_def)
qed

lemma js_rem_neg:
  assumes "0 < b" and "a < 0"
  shows "- b < js_rem a b \<and> js_rem a b \<le> 0"
proof -
  have "a / b < 0" using assms by (rule_tac divide_neg_pos)
  then have q: "\<not> 0 \<le> a / b" by simp
  have "b * (a / b) \<le> b * of_int \<lceil>a / b\<rceil>"
    using assms(1) by (intro mult_left_mono) auto
  then have l: "a \<le> b * of_int \<lceil>a / b\<rceil>"
    using assms(1) by simp
  have "of_int \<lceil>a / b\<rceil> - 1 < a / b" by linarith
  then have "b * (of_int \<lceil>a / b\<rceil> - 1) < b * (a / b)"
    using assms(1) by (intro mult_strict_left_mono) auto
  then have u: "b * of_int \<lceil>a / b\<rceil> - b < a"
    using assms(1) by (simp add: algebra_simps)
  from q l u show ?thesis by (simp add: js_rem_def)
qed

lemma adjustedRotOf_range: "0 < adjustedRotOf y \<and> adjustedRotOf y \<le> 2 * pi"
proof -
  have b: "0 < pi * 2" by simp
  have "- (pi * 2) < js_rem y (pi * 2) \<and> js_rem y (pi * 2) < pi * 2"
    using js_rem_nonneg [OF b, of y] js_rem_neg [OF b, of y] by (cases "0 \<le> y") auto
  then have "0 \<le> js_rem y (pi * 2) + pi * 2" by simp
  from js_rem_nonneg [OF b this] show ?thesis
    by (simp add: adjustedRotOf_def Let_def)
qed


text \<open>
  Claim C3, as the code has it. The five ranges \<open>[0, 1.2)\<close>, \<open>[1.2, 2.5)\<close>, \<open>[2.5, 4.0)\<close>,
  \<open>[4.0, 5.5)\<close>, \<open>[5.5, 6.28)\<close> partition \<open>[0, 6.28)\<close>: every angle there lies in exactly
  one of them, and an angle below 0 or from 6.28 on lies in none, so the search finds
  nothing there. A sector found contains the angle, lower bound included and upper bound
  excluded; at exactly 1.2 the search returns Asia.
\<close>

theorem sectors_partition_below_628:
  "length (filter (inSector a) CONTINENTS) = (if 0 \<le> a \<and> a < 6.28 then 1 else 0)
   \<and> (findContinent a = None \<longleftrightarrow> a < 0 \<or> 6.28 \<le> a)
   \<and> (\<forall>c. findContinent a = Some c \<longrightarrow> fst (rad c) \<le> a \<and> a < snd (rad c))
   \<and> map_option name (findContinent 1.2) = Some (ascii ''ASIA ('' @ [20122, 27954] @ ascii '')'')
   \<and> map rad CONTINENTS = [(0, 1.2), (1.2, 2.5), (2.5, 4), (4, 5.5), (5.5, 6.28)]"
proof (intro conjI)
  show "length (filter (inSector a) CONTINENTS) = (if 0 \<le> a \<and> a < 6.28 then 1 else 0)"
    using sectors_exactly_one [of a] sectors_none [of a] by (simp add: not_le not_less)
  show "findContinent a = None \<longleftrightarrow> a < 0 \<or> 6.28 \<le> a"
    by (rule findContinent_None_iff)
  show "\<forall>c. findContinent a = Some c \<longrightarrow> fst (rad c) \<le> a \<and> a < snd (rad c)"
    using findContinent_Some_range by blast
  show "map_option name (findContinent 1.2) = Some (ascii ''ASIA ('' @ [20122, 27954] @ ascii '')'')"
    by (simp add: findContinent_cases CONTINENTS_def)
  show "map rad CONTINENTS = [(0, 1.2), (1.2, 2.5), (2.5, 4), (4, 5.5), (5.5, 6.28)]"
    by (simp add: CONTINENTS_def)
qed

theorem sectors_partition_below_628_witness:
  "length (filter (inSector 1.2) CONTINENTS) = 1
   \<and> length (filter (inSector 6.27) CONTINENTS) = 1
   \<and> length (filter (inSector 6.28) CONTINENTS) = 0
   \<and> findContinent 6.28 = None
   \<and> map_option rad (findContinent 1.2) = Some (1.2, 2.5)"
  using sectors_partition_below_628 [of "1.2"] sectors_partition_below_628 [of "6.27"]
    sectors_partition_below_628 [of "6.28"]
  by (simp add: findContinent_cases CONTINENTS_def)

text \<open>
  The ranges do not cover \<open>[0, 2\<pi>)\<close>: 6.28 is below \<open>2\<pi>\<close> and in no range.
\<close>

theorem sectors_gap_counterexample:
  "0 \<le> (6.28 :: real) \<and> 6.28 < 2 * pi \<and> filter (inSector 6.28) CONTINENTS = []
   \<and> findContinent 6.28 = None"
  using gap_below_two_pi by (simp add: CONTINENTS_def inSector_def findContinent_def)

text \<open>
  Claim C8. When the reflected, normalised angle of a rendered frame lies in none of
  the five ranges, the frame leaves the displayed sector name as it was; an angle of
  exactly \<open>2\<pi>\<close> is such a case.
\<close>

theorem no_sector_keeps_name:
  "(earthRef st = Some g
      \<and> findContinent (adjustedRotOf
            (lerp (coord_y (rotation g)) (coord_y (earthRotation st)) 0.05)) = None
      \<longrightarrow> activeContinent (useFrame st) = activeContinent st)
   \<and> (adjustedRotOf y = 2 * pi \<longrightarrow> findContinent (adjustedRotOf y) = None)"
proof (intro conjI impI)
  assume "earthRef st = Some g
      \<and> findContinent (adjustedRotOf
            (lerp (coord_y (rotation g)) (coord_y (earthRotation st)) 0.05)) = None"
  then show "activeContinent (useFrame st) = activeContinent st"
    by (simp add: useFrame_def useFrameWith_def Let_def)
next
  assume "adjustedRotOf y = 2 * pi"
  then show "findContinent (adjustedRotOf y) = None"
    using gap_below_two_pi by (simp add: findContinent_None_iff)
qed

lemma lerp_zero: "lerp 0 0 t = 0"
  by (simp add: lerp_def)

text \<open>
  The first rendered frame: rotation and target are 0, the reflected angle is \<open>2\<pi>\<close>,
  and the display keeps its initial text.
\<close>

theorem no_sector_keeps_name_witness:
  "earthRef ((initial win0)\<lparr>earthRef := Some group0\<rparr>) = Some group0
   \<and> lerp (coord_y (rotation group0)) (coord_y (earthRotation (initial win0))) 0.05 = 0
   \<and> adjustedRotOf 0 = 2 * pi
   \<and> findContinent (adjustedRotOf 0) = None
   \<and> activeContinent (useFrame ((initial win0)\<lparr>earthRef := Some group0\<rparr>))
        = ascii ''SCANNING...''"
  using no_sector_keeps_name [of "(initial win0)\<lparr>earthRef := Some group0\<rparr>" group0 0]
  by (simp add: initial_def group0_def lerp_zero adjustedRotOf_0)


section \<open>The scale stays in its interval\<close>

lemma useFrameWith_mounted:
  assumes "earthRef st = Some g"
  shows "earthRef (useFrameWith f st) =
           Some \<lparr>rotation = \<lparr>coord_x = lerp (coord_x (rotation g)) (coord_x (earthRotation st)) f,
                              coord_y = lerp (coord_y (rotation g)) (coord_y (earthRotation st)) f\<rparr>,
                  scale_x = lerp (scale_x g) (earthScale st) 0.1\<rparr>"
  using assms by (simp add: useFrameWith_def Let_def split: option.splits)

lemma useFrameWith_unmounted:
  assumes "earthRef st = None"
  shows "useFrameWith f st = st"
  using assms by (simp add: useFrameWith_def)

lemma useFrameWith_keeps:
  "earthRotation (useFrameWith f st) = earthRotation st"
  "earthScale (useFrameWith f st) = earthScale st"
  "lastCmdTime (useFrameWith f st) = lastCmdTime st"
  "panelUI (useFrameWith f st) = panelUI st"
  "handStatus (useFrameWith f st) = handStatus st"
  by (simp_all add: useFrameWith_def Let_def split: option.splits)

lemma lerp_in_range:
  assumes "inScaleRange a" and "inScaleRange b"
  shows "inScaleRange (lerp a b 0.1)"
  using assms by (simp add: inScaleRange_def lerp_def)

lemma useFrame_scaleInv:
  assumes "scaleInv st"
  shows "scaleInv (useFrame st)"
proof (cases "earthRef st")
  case None
  then show ?thesis using assms by (simp add: useFrame_def useFrameWith_unmounted)
next
  case (Some g)
  then show ?thesis
    using assms lerp_in_range [of "scale_x g" "earthScale st"]
    by (simp add: useFrame_def scaleInv_def useFrameWith_mounted useFrameWith_keeps)
qed

lemma onresult_scaleInv:
  assumes "scaleInv st"
  shows "scaleInv (onresult lib now transcript st)"
  using assms by (simp add: scaleInv_def onresult_keeps)

lemma processHand_scaleInv:
  assumes "scaleInv st" and "processHand win now landmarks st = Inr st'"
  shows "scaleInv st'"
  using assms scaleOfPinch_bounds [of "getDistance (landmarks ! 4) (landmarks ! 8)"]
  by (auto simp: processHand_def Let_def scaleInv_def inScaleRange_def
      split: if_splits role.splits)

lemma forEach_scaleInv:
  assumes "scaleInv st"
  shows "scaleInv (afterDetect (forEach win hands st))"
  using assms
proof (induction hands arbitrary: st)
  case Nil
  then show ?case by (simp add: afterDetect_def)
next
  case (Cons h hands)
  obtain now landmarks where h: "h = (now, landmarks)" by (cases h)
  show ?case
  proof (cases "processHand win now landmarks st")
    case (Inl e)
    then show ?thesis using Cons.prems h by (simp add: afterDetect_def)
  next
    case (Inr st')
    then have "scaleInv st'" using Cons.prems processHand_scaleInv by blast
    then show ?thesis using Cons.IH Inr h by simp
  qed
qed

lemma detectLoop_scaleInv:
  assumes "scaleInv st"
  shows "scaleInv (afterDetect (detectLoop win ready hands st))"
  using assms forEach_scaleInv [OF assms, of win hands]
  by (simp add: detectLoop_def afterDetect_def)

lemma step_scaleInv:
  assumes "scaleInv st" and "mountsInRange [e]"
  shows "scaleInv (step lib e st)"
  using assms
  by (cases e)
    (simp_all add: onresult_scaleInv detectLoop_scaleInv useFrame_scaleInv,
      simp add: scaleInv_def mountsInRange_def)

lemma run_scaleInv:
  assumes "scaleInv st" and "mountsInRange evs"
  shows "scaleInv (run lib evs st)"
  using assms
proof (induction evs arbitrary: st)
  case Nil
  then show ?case by simp
next
  case (Cons e evs)
  from Cons.prems have "mountsInRange [e]" and m: "mountsInRange evs"
    by (simp_all add: mountsInRange_def)
  then have "scaleInv (step lib e st)" using Cons.prems(1) step_scaleInv by blast
  then show ?case using Cons.IH m by simp
qed

lemma initial_scaleInv: "scaleInv (initial win)"
  by (simp add: scaleInv_def initial_def inScaleRange_def)

text \<open>
  Claim C10. The scale target starts at 1, and after every sequence of events (mounts
  of a group whose scale is in \<open>[0.5, 2.5]\<close>, utterances, detect-loop calls, rendered
  frames) the scale target and the rendered scale lie in \<open>[0.5, 2.5]\<close>: the target is only
  overwritten with a clamped value, and a rendered frame replaces the rendered scale by
  \<open>lerp\<close> of itself and the target with factor 0.1.
\<close>

theorem scale_stays_in_range:
  assumes "mountsInRange evs"
  shows "earthScale (initial win) = 1
       \<and> 0.5 \<le> earthScale (run lib evs (initial win))
       \<and> earthScale (run lib evs (initial win)) \<le> 2.5
       \<and> (\<forall>g. earthRef (run lib evs (initial win)) = Some g
              \<longrightarrow> 0.5 \<le> scale_x g \<and> scale_x g \<le> 2.5)"
proof -
  have "scaleInv (run lib evs (initial win))"
    using initial_scaleInv assms by (rule run_scaleInv)
  then have "0.5 \<le> earthScale (run lib evs (initial win))
       \<and> earthScale (run lib evs (initial win)) \<le> 2.5
       \<and> (\<forall>g. earthRef (run lib evs (initial win)) = Some g
              \<longrightarrow> 0.5 \<le> scale_x g \<and> scale_x g \<le> 2.5)"
    by (auto simp: scaleInv_def inScaleRange_def)
  moreover have "earthScale (initial win) = 1"
    by (simp add: initial_def)
  ultimately show ?thesis
    by blast
qed

lemma useFrame_mounted:
  assumes "earthRef st = Some g"
  shows "earthRef (useFrame st) =
           Some \<lparr>rotation = \<lparr>coord_x = lerp (coord_x (rotation g)) (coord_x (earthRotation st)) 0.05,
                              coord_y = lerp (coord_y (rotation g)) (coord_y (earthRotation st)) 0.05\<rparr>,
                  scale_x = lerp (scale_x g) (earthScale st) 0.1\<rparr>"
    and "earthRef (useFrame_App st) =
           Some \<lparr>rotation = \<lparr>coord_x = lerp (coord_x (rotation g)) (coord_x (earthRotation st)) 0.1,
                              coord_y = lerp (coord_y (rotation g)) (coord_y (earthRotation st)) 0.1\<rparr>,
                  scale_x = lerp (scale_x g) (earthScale st) 0.1\<rparr>"
  using assms by (simp_all add: useFrame_def useFrame_App_def useFrameWith_mounted)

lemma useFrame_keeps:
  "earthRotation (useFrame st) = earthRotation st"
  "earthScale (useFrame st) = earthScale st"
  "lastCmdTime (useFrame st) = lastCmdTime st"
  "earthRotation (useFrame_App st) = earthRotation st"
  "earthScale (useFrame_App st) = earthScale st"
  "lastCmdTime (useFrame_App st) = lastCmdTime st"
  by (simp_all add: useFrame_def useFrame_App_def useFrameWith_keeps)

lemma onresult_asia:
  "earthRotation (onresult asciiLib now (ascii ''go to asia'') st) = \<lparr>coord_x = 0.2, coord_y = 2\<rparr>"
  "lastCmdTime (onresult asciiLib now (ascii ''go to asia'') st) = now"
  "earthRotation (onresult_App asciiLib (ascii ''go to asia'') st) = \<lparr>coord_x = 0.2, coord_y = 2\<rparr>"
  "lastCmdTime (onresult_App asciiLib (ascii ''go to asia'') st) = lastCmdTime st"
  "earthScale (onresult_App asciiLib (ascii ''go to asia'') st) = earthScale st"
  "earthRef (onresult_App asciiLib (ascii ''go to asia'') st) = earthRef st"
  by (simp_all add: onresult_def onresult_App_def asciiLib_def ascii_def asciiLower_def
      asciiSpace_def)

lemma detect_one:
  "afterDetect (detectLoop win True [(now, landmarks)] st)
     = (case processHand win now landmarks st of Inl e \<Rightarrow> st | Inr st' \<Rightarrow> st')"
  by (simp add: detectLoop_def afterDetect_def split: sum.splits)

theorem scale_stays_in_range_witness:
  "mountsInRange sampleEvents
   \<and> earthScale (run asciiLib sampleEvents (initial win0)) = 1.6
   \<and> map_option scale_x (earthRef (run asciiLib sampleEvents (initial win0))) = Some 1.114"
  using scale_stays_in_range [of sampleEvents win0 asciiLib]
  by (simp add: sampleEvents_def mountsInRange_def inScaleRange_def group0_def
      detect_one processHand_Orientation spreadHand_nth centredHand_nth
      getDistance_level scaleOfPinch_def initial_def useFrame_mounted useFrame_keeps
      onresult_keeps onresult_asia lerp_def)


section \<open>The two files side by side\<close>
















end
